theory Spec2Isabelle
  imports Main "HOL-Library.Word"
begin

unbundle bit_operations_syntax

section \<open>Vulkan types and constants used by \<^verbatim>\<open>Presentation/swap_chain.cpp\<close>\<close>

text \<open>
  The program is written against the Vulkan C API. A \<^verbatim>\<open>uint32_t\<close> is a 32-bit word,
  a C enumeration is an integer with named values (the values are those of the Vulkan
  header \<^verbatim>\<open>vulkan_core.h\<close>, which the source includes through GLFW), a non-dispatchable
  handle is a 64-bit word with \<^verbatim>\<open>VK_NULL_HANDLE\<close> as 0.
\<close>

type_synonym uint32_t = "32 word"
type_synonym VkBool32 = "32 word"
type_synonym VkFlags = "32 word"
type_synonym VkFormat = int
type_synonym VkColorSpaceKHR = int
type_synonym VkPresentModeKHR = int
type_synonym VkSharingMode = int
type_synonym VkSwapchainKHR = "64 word"
type_synonym VkSurfaceKHR = "64 word"

definition VK_NULL_HANDLE :: "64 word" where
  "VK_NULL_HANDLE = 0"

definition VK_TRUE :: VkBool32 where
  "VK_TRUE = 1"

definition VK_QUEUE_GRAPHICS_BIT :: VkFlags where
  "VK_QUEUE_GRAPHICS_BIT = 1"

definition VK_FORMAT_B8G8R8A8_SRGB :: VkFormat where
  "VK_FORMAT_B8G8R8A8_SRGB = 50"

definition VK_COLOR_SPACE_SRGB_NONLINEAR_KHR :: VkColorSpaceKHR where
  "VK_COLOR_SPACE_SRGB_NONLINEAR_KHR = 0"

definition VK_PRESENT_MODE_IMMEDIATE_KHR :: VkPresentModeKHR where
  "VK_PRESENT_MODE_IMMEDIATE_KHR = 0"

definition VK_PRESENT_MODE_MAILBOX_KHR :: VkPresentModeKHR where
  "VK_PRESENT_MODE_MAILBOX_KHR = 1"

definition VK_PRESENT_MODE_FIFO_KHR :: VkPresentModeKHR where
  "VK_PRESENT_MODE_FIFO_KHR = 2"

definition VK_PRESENT_MODE_FIFO_RELAXED_KHR :: VkPresentModeKHR where
  "VK_PRESENT_MODE_FIFO_RELAXED_KHR = 3"

definition VK_SHARING_MODE_EXCLUSIVE :: VkSharingMode where
  "VK_SHARING_MODE_EXCLUSIVE = 0"

definition VK_SHARING_MODE_CONCURRENT :: VkSharingMode where
  "VK_SHARING_MODE_CONCURRENT = 1"

definition VK_IMAGE_USAGE_COLOR_ATTACHMENT_BIT :: VkFlags where
  "VK_IMAGE_USAGE_COLOR_ATTACHMENT_BIT = 16"

definition VK_COMPOSITE_ALPHA_OPAQUE_BIT_KHR :: VkFlags where
  "VK_COMPOSITE_ALPHA_OPAQUE_BIT_KHR = 1"

definition VK_KHR_SWAPCHAIN_EXTENSION_NAME :: string where
  "VK_KHR_SWAPCHAIN_EXTENSION_NAME = ''VK_KHR_swapchain''"

text \<open>\<^verbatim>\<open>std::numeric_limits<uint32_t>::max()\<close>\<close>

definition uint32_max :: uint32_t where
  "uint32_max = 0xFFFFFFFF"

record VkExtent2D =
  width :: uint32_t
  height :: uint32_t

text \<open>The fields of \<^verbatim>\<open>VkSurfaceCapabilitiesKHR\<close> that the program reads.\<close>

record VkSurfaceCapabilitiesKHR =
  minImageCount :: uint32_t
  maxImageCount :: uint32_t
  currentExtent :: VkExtent2D
  minImageExtent :: VkExtent2D
  maxImageExtent :: VkExtent2D
  currentTransform :: VkFlags

record VkSurfaceFormatKHR =
  format :: VkFormat
  colorSpace :: VkColorSpaceKHR

record VkQueueFamilyProperties =
  queueFlags :: VkFlags

section \<open>The program's own data\<close>

text \<open>
  \<^verbatim>\<open>struct QueueFamilyIndices\<close> (lines 57-64): two \<^verbatim>\<open>std::optional<uint32_t>\<close>.
\<close>

record QueueFamilyIndices =
  graphicsFamily :: "uint32_t option"
  presentFamily :: "uint32_t option"

text \<open>
  \<^verbatim>\<open>struct SwapChainSupportDetails\<close> (lines 74-78). The struct declares its third field
  as \<^verbatim>\<open>presentMode\<close>; every use in the file writes \<^verbatim>\<open>presentModes\<close>, the name kept here.
\<close>

record SwapChainSupportDetails =
  capabilities :: VkSurfaceCapabilitiesKHR
  formats :: "VkSurfaceFormatKHR list"
  presentModes :: "VkPresentModeKHR list"

text \<open>
  What the driver answers for one physical device and the application's surface: the
  queries of \<^verbatim>\<open>findQueueFamilies\<close>, \<^verbatim>\<open>checkDeviceExtensionSupport\<close> and
  \<^verbatim>\<open>querySwapChainSupport\<close> read it and nothing else.
  \<^item> \<open>queueFamilyProperties\<close>: \<^verbatim>\<open>vkGetPhysicalDeviceQueueFamilyProperties\<close>;
  \<^item> \<open>surfaceSupport i\<close>: the \<^verbatim>\<open>VkBool32\<close> that
    \<^verbatim>\<open>vkGetPhysicalDeviceSurfaceSupportKHR(device, i, surface, ...)\<close> stores;
  \<^item> \<open>extensionProperties\<close>: the \<^verbatim>\<open>extensionName\<close> of each entry of
    \<^verbatim>\<open>vkEnumerateDeviceExtensionProperties\<close>;
  \<^item> \<open>surfaceCapabilities\<close>, \<open>surfaceFormats\<close>, \<open>surfacePresentModes\<close>: the three
    surface queries.
\<close>

record VkPhysicalDevice =
  queueFamilyProperties :: "VkQueueFamilyProperties list"
  surfaceSupport :: "uint32_t \<Rightarrow> VkBool32"
  extensionProperties :: "string list"
  surfaceCapabilities :: VkSurfaceCapabilitiesKHR
  surfaceFormats :: "VkSurfaceFormatKHR list"
  surfacePresentModes :: "VkPresentModeKHR list"

text \<open>
  The ways a call can end without a value: a C++ exception
  (\<^verbatim>\<open>std::runtime_error\<close> with its message, \<^verbatim>\<open>std::bad_optional_access\<close> from
  \<^verbatim>\<open>optional::value()\<close>), control reaching the end of a value-returning function with no
  \<^verbatim>\<open>return\<close>, and \<^verbatim>\<open>std::clamp\<close> called with its upper bound below its lower bound
  (both undefined behaviour in C++).
\<close>

datatype error =
    runtime_error string
  | bad_optional_access
  | no_return_value
  | clamp_hi_below_lo

section \<open>Queue families\<close>

text \<open>
  \<^verbatim>\<open>bool isComplete() { return graphicsFamily.has_value(); }\<close> (lines 61-63).
\<close>

definition isComplete :: "QueueFamilyIndices \<Rightarrow> bool" where
  "isComplete indices = (graphicsFamily indices \<noteq> None)"

text \<open>
  The loop of \<^verbatim>\<open>findQueueFamilies\<close> (lines 538-557). The counter \<^verbatim>\<open>int i\<close> starts at 0
  and goes up by one, so it is a natural number here; it is converted when it is stored
  in an \<^verbatim>\<open>optional<uint32_t>\<close> and when it is passed as the \<^verbatim>\<open>uint32_t\<close> family index
  of the surface-support query. Both assignments are unconditional. The function returns
  the indices together with the value of \<open>i\<close> when the loop is left: the index of the
  family at which \<^verbatim>\<open>break\<close> ran, or the number of families when the loop ran to the end.
\<close>

fun findQueueFamilies_loop ::
  "(uint32_t \<Rightarrow> VkBool32) \<Rightarrow> VkQueueFamilyProperties list \<Rightarrow> nat \<Rightarrow> QueueFamilyIndices
    \<Rightarrow> QueueFamilyIndices \<times> nat" where
  "findQueueFamilies_loop support [] i indices = (indices, i)"
| "findQueueFamilies_loop support (queueFamily # rest) i indices =
    (let indices1 =
           (if queueFlags queueFamily AND VK_QUEUE_GRAPHICS_BIT \<noteq> 0
            then indices\<lparr>graphicsFamily := Some (of_nat i)\<rparr> else indices);
         presentSupport = support (of_nat i);
         indices2 =
           (if presentSupport \<noteq> 0
            then indices1\<lparr>presentFamily := Some (of_nat i)\<rparr> else indices1)
     in if isComplete indices2 then (indices2, i)
        else findQueueFamilies_loop support rest (i + 1) indices2)"

definition findQueueFamilies_scan :: "VkPhysicalDevice \<Rightarrow> QueueFamilyIndices \<times> nat" where
  "findQueueFamilies_scan device =
     findQueueFamilies_loop (surfaceSupport device) (queueFamilyProperties device) 0
       \<lparr>graphicsFamily = None, presentFamily = None\<rparr>"

definition findQueueFamilies :: "VkPhysicalDevice \<Rightarrow> QueueFamilyIndices" where
  "findQueueFamilies device = fst (findQueueFamilies_scan device)"

section \<open>Selection of format, presentation mode and extent\<close>

text \<open>
  \<^verbatim>\<open>chooseSwapSurfaceFormat\<close> (lines 382-388): the loop returns the first entry with the
  preferred format and colour space. The source has no statement after the loop (the
  function's text runs into a comment and the next function), so on a list with no such
  entry no value is returned: \<open>Inl no_return_value\<close>.
\<close>

fun chooseSwapSurfaceFormat :: "VkSurfaceFormatKHR list \<Rightarrow> error + VkSurfaceFormatKHR" where
  "chooseSwapSurfaceFormat [] = Inl no_return_value"
| "chooseSwapSurfaceFormat (availableFormat # rest) =
    (if format availableFormat = VK_FORMAT_B8G8R8A8_SRGB
        \<and> colorSpace availableFormat = VK_COLOR_SPACE_SRGB_NONLINEAR_KHR
     then Inr availableFormat
     else chooseSwapSurfaceFormat rest)"

text \<open>\<^verbatim>\<open>chooseSwapPresentMode\<close> (lines 419-426).\<close>

fun chooseSwapPresentMode :: "VkPresentModeKHR list \<Rightarrow> VkPresentModeKHR" where
  "chooseSwapPresentMode [] = VK_PRESENT_MODE_FIFO_KHR"
| "chooseSwapPresentMode (availablePresentMode # rest) =
    (if availablePresentMode = VK_PRESENT_MODE_MAILBOX_KHR
     then availablePresentMode
     else chooseSwapPresentMode rest)"

text \<open>
  \<^verbatim>\<open>std::clamp(v, lo, hi)\<close> on \<^verbatim>\<open>uint32_t\<close>: \<open>lo\<close> when \<open>v < lo\<close>, \<open>hi\<close> when
  \<open>hi < v\<close>, else \<open>v\<close>; the behaviour is undefined when \<open>hi < lo\<close>.
\<close>

definition std_clamp :: "uint32_t \<Rightarrow> uint32_t \<Rightarrow> uint32_t \<Rightarrow> error + uint32_t" where
  "std_clamp v lo hi =
     (if hi < lo then Inl clamp_hi_below_lo
      else Inr (if v < lo then lo else if hi < v then hi else v))"

text \<open>
  \<^verbatim>\<open>chooseSwapExtent\<close> (lines 444-461). The second argument is the pair of \<^verbatim>\<open>int\<close>s that
  \<^verbatim>\<open>glfwGetFramebufferSize(window, &width, &height)\<close> stores;
  \<^verbatim>\<open>static_cast<uint32_t>\<close> is \<open>word_of_int\<close>. (The source's \<^verbatim>\<open>vkExtent2D\<close> and
  \<^verbatim>\<open>capabilites\<close> are read as \<^verbatim>\<open>VkExtent2D\<close> and \<^verbatim>\<open>capabilities\<close>; the parameter
  is \<open>caps\<close> here, its name being a field of \<open>SwapChainSupportDetails\<close>.)
\<close>

definition chooseSwapExtent :: "VkSurfaceCapabilitiesKHR \<Rightarrow> int \<times> int \<Rightarrow> error + VkExtent2D" where
  "chooseSwapExtent caps framebufferSize =
     (if width (currentExtent caps) \<noteq> uint32_max
      then Inr (currentExtent caps)
      else
        (let actualExtent =
               \<lparr>width = word_of_int (fst framebufferSize),
                height = word_of_int (snd framebufferSize)\<rparr>
         in case std_clamp (width actualExtent) (width (minImageExtent caps))
                   (width (maxImageExtent caps)) of
              Inl e \<Rightarrow> Inl e
            | Inr w \<Rightarrow>
                (case std_clamp (height actualExtent) (height (minImageExtent caps))
                        (height (maxImageExtent caps)) of
                   Inl e \<Rightarrow> Inl e
                 | Inr h \<Rightarrow> Inr (actualExtent\<lparr>width := w, height := h\<rparr>))))"

section \<open>Device suitability\<close>

text \<open>\<^verbatim>\<open>querySwapChainSupport\<close> (lines 466-488): the three surface queries, unfiltered.\<close>

definition querySwapChainSupport :: "VkPhysicalDevice \<Rightarrow> SwapChainSupportDetails" where
  "querySwapChainSupport device =
     \<lparr>capabilities = surfaceCapabilities device,
      formats = surfaceFormats device,
      presentModes = surfacePresentModes device\<rparr>"

definition deviceExtensions :: "string list" where
  "deviceExtensions = [VK_KHR_SWAPCHAIN_EXTENSION_NAME]"

text \<open>
  \<^verbatim>\<open>checkDeviceExtensionSupport\<close> (lines 512-526; the file also holds a stub of the same
  name that returns \<^verbatim>\<open>true\<close>, lines 507-509, which this definition replaces): the set of
  required names, from which every available extension's name is erased.
\<close>

definition checkDeviceExtensionSupport :: "VkPhysicalDevice \<Rightarrow> bool" where
  "checkDeviceExtensionSupport device =
     (fold (\<lambda>extension requiredExtensions. requiredExtensions - {extension})
        (extensionProperties device) (set deviceExtensions) = {})"

text \<open>
  \<^verbatim>\<open>isDeviceSuitable\<close> (lines 491-506). The source's return statement reads
  \<^verbatim>\<open>indices.isComplete() extensionsSupported && swapChainAdequate\<close>; the missing operator
  is read as \<^verbatim>\<open>&&\<close>.
\<close>

definition isDeviceSuitable :: "VkPhysicalDevice \<Rightarrow> bool" where
  "isDeviceSuitable device =
     (let indices = findQueueFamilies device;
          extensionsSupported = checkDeviceExtensionSupport device;
          swapChainAdequate =
            (if extensionsSupported
             then (let swapChainSupport = querySwapChainSupport device
                   in formats swapChainSupport \<noteq> [] \<and> presentModes swapChainSupport \<noteq> [])
             else False)
      in isComplete indices \<and> extensionsSupported \<and> swapChainAdequate)"

text \<open>
  \<^verbatim>\<open>pickPhysicalDevice\<close> (lines 213-236): the first suitable device of the enumeration;
  an exception when there is no device or no suitable one.
\<close>

definition pickPhysicalDevice :: "VkPhysicalDevice list \<Rightarrow> error + VkPhysicalDevice" where
  "pickPhysicalDevice devices =
     (if length devices = 0 then Inl (runtime_error ''failed to find GPUs with Vulkan support!'')
      else (case find isDeviceSuitable devices of
              Some device \<Rightarrow> Inr device
            | None \<Rightarrow> Inl (runtime_error ''failed to find a suitable GPU!'')))"

section \<open>Building the swap chain\<close>

text \<open>
  The members of \<^verbatim>\<open>HelloTriangleApplication\<close> that \<^verbatim>\<open>createSwapChain\<close> reads:
  the surface, the picked physical device, the swap chain handle the object holds, and
  the window, of which only the framebuffer size matters.
\<close>

record HelloTriangleApplication =
  surface :: VkSurfaceKHR
  physicalDevice :: VkPhysicalDevice
  swapChain :: VkSwapchainKHR
  window_framebufferSize :: "int \<times> int"

text \<open>
  \<^verbatim>\<open>VkSwapchainCreateInfoKHR\<close>: the fields the program sets, but for the constant
  \<^verbatim>\<open>sType\<close>. Two field names are taken by other records of this theory and carry the
  suffix \<open>_ci\<close>: \<^verbatim>\<open>createInfo.surface\<close> and \<^verbatim>\<open>createInfo.minImageCount\<close>. A null
  \<^verbatim>\<open>pQueueFamilyIndices\<close> is \<open>None\<close>; otherwise it is the array it points to. The
  last field keeps the source's spelling \<^verbatim>\<open>oldSwapChain\<close>.
\<close>

record VkSwapchainCreateInfoKHR =
  surface_ci :: VkSurfaceKHR
  minImageCount_ci :: uint32_t
  imageFormat :: VkFormat
  imageColorSpace :: VkColorSpaceKHR
  imageExtent :: VkExtent2D
  imageArrayLayers :: uint32_t
  imageUsage :: VkFlags
  imageSharingMode :: VkSharingMode
  queueFamilyIndexCount :: uint32_t
  pQueueFamilyIndices :: "uint32_t list option"
  preTransform :: VkFlags
  compositeAlpha :: VkFlags
  presentMode :: VkPresentModeKHR
  clipped :: VkBool32
  oldSwapChain :: VkSwapchainKHR

text \<open>Lines 299-305 of \<^verbatim>\<open>createSwapChain\<close>: the image count, in \<^verbatim>\<open>uint32_t\<close> arithmetic.\<close>

definition createSwapChain_imageCount :: "VkSurfaceCapabilitiesKHR \<Rightarrow> uint32_t" where
  "createSwapChain_imageCount caps =
     (let imageCount = minImageCount caps + 1
      in if maxImageCount caps > 0 \<and> imageCount > maxImageCount caps
         then maxImageCount caps
         else imageCount)"

text \<open>\<^verbatim>\<open>optional::value()\<close>: the value, or \<^verbatim>\<open>std::bad_optional_access\<close>.\<close>

definition optional_value :: "'a option \<Rightarrow> error + 'a" where
  "optional_value opt = (case opt of Some v \<Rightarrow> Inr v | None \<Rightarrow> Inl bad_optional_access)"

text \<open>
  Lines 322-333 of \<^verbatim>\<open>createSwapChain\<close>: the sharing mode, the number of listed queue
  family indices and the array \<^verbatim>\<open>pQueueFamilyIndices\<close> points to. The array is filled
  with \<^verbatim>\<open>indices.graphicsFamily.value()\<close> and \<^verbatim>\<open>indices.presentFamily.value()\<close> before the
  two optionals are compared.
\<close>

definition createSwapChain_sharing ::
  "QueueFamilyIndices \<Rightarrow> error + VkSharingMode \<times> uint32_t \<times> uint32_t list option" where
  "createSwapChain_sharing indices =
     (case optional_value (graphicsFamily indices) of
        Inl e \<Rightarrow> Inl e
      | Inr graphicsIndex \<Rightarrow>
     (case optional_value (presentFamily indices) of
        Inl e \<Rightarrow> Inl e
      | Inr presentIndex \<Rightarrow>
     (let queueFamilyIndices = [graphicsIndex, presentIndex]
      in if graphicsFamily indices \<noteq> presentFamily indices
         then Inr (VK_SHARING_MODE_CONCURRENT, 2, Some queueFamilyIndices)
         else Inr (VK_SHARING_MODE_EXCLUSIVE, 0, None))))"

text \<open>
  \<^verbatim>\<open>createSwapChain\<close> up to the create call (lines 290-361): the
  \<^verbatim>\<open>VkSwapchainCreateInfoKHR\<close> that is handed to \<^verbatim>\<open>vkCreateSwapchainKHR\<close>, with the
  statements in the source's order. The function takes no argument; everything it uses
  is a member of the application object. The create call itself and the retrieval of the
  images are driver effects and are not modelled.
\<close>

definition createSwapChain_createInfo ::
  "HelloTriangleApplication \<Rightarrow> error + VkSwapchainCreateInfoKHR" where
  "createSwapChain_createInfo app =
     (let swapChainSupport = querySwapChainSupport (physicalDevice app) in
      case chooseSwapSurfaceFormat (formats swapChainSupport) of
        Inl e \<Rightarrow> Inl e
      | Inr surfaceFormat \<Rightarrow>
     (let presentMode' = chooseSwapPresentMode (presentModes swapChainSupport) in
      case chooseSwapExtent (capabilities swapChainSupport) (window_framebufferSize app) of
        Inl e \<Rightarrow> Inl e
      | Inr extent \<Rightarrow>
     (let imageCount = createSwapChain_imageCount (capabilities swapChainSupport);
          indices = findQueueFamilies (physicalDevice app) in
      case createSwapChain_sharing indices of
        Inl e \<Rightarrow> Inl e
      | Inr (sharingMode, indexCount, pIndices) \<Rightarrow>
          Inr
          \<lparr>surface_ci = surface app,
           minImageCount_ci = imageCount,
           imageFormat = format surfaceFormat,
           imageColorSpace = colorSpace surfaceFormat,
           imageExtent = extent,
           imageArrayLayers = 1,
           imageUsage = VK_IMAGE_USAGE_COLOR_ATTACHMENT_BIT,
           imageSharingMode = sharingMode,
           queueFamilyIndexCount = indexCount,
           pQueueFamilyIndices = pIndices,
           preTransform = currentTransform (capabilities swapChainSupport),
           compositeAlpha = VK_COMPOSITE_ALPHA_OPAQUE_BIT_KHR,
           presentMode = presentMode',
           clipped = VK_TRUE,
           oldSwapChain = VK_NULL_HANDLE\<rparr>)))"

section \<open>Example inputs\<close>

text \<open>
  A surface that lets the application choose the extent (both components of
  \<open>currentExtent\<close> are the maximum of \<^verbatim>\<open>uint32_t\<close>), with no upper limit on the
  image count.
\<close>

definition example_capabilities :: VkSurfaceCapabilitiesKHR where
  "example_capabilities =
     \<lparr>minImageCount = 2, maxImageCount = 0,
      currentExtent = \<lparr>width = uint32_max, height = uint32_max\<rparr>,
      minImageExtent = \<lparr>width = 1, height = 1\<rparr>,
      maxImageExtent = \<lparr>width = 4096, height = 4096\<rparr>,
      currentTransform = 1\<rparr>"

text \<open>
  A device with three queue families: compute only, then graphics, compute and transfer
  with presentation to the surface, then graphics only.
\<close>

definition example_device :: VkPhysicalDevice where
  "example_device =
     \<lparr>queueFamilyProperties = [\<lparr>queueFlags = 2\<rparr>, \<lparr>queueFlags = 7\<rparr>, \<lparr>queueFlags = 1\<rparr>],
      surfaceSupport = (\<lambda>i. if i = 1 then 1 else 0),
      extensionProperties = [''VK_KHR_maintenance1'', ''VK_KHR_swapchain''],
      surfaceCapabilities = example_capabilities,
      surfaceFormats = [\<lparr>format = 44, colorSpace = 0\<rparr>, \<lparr>format = 50, colorSpace = 0\<rparr>],
      surfacePresentModes = [2, 1]\<rparr>"

text \<open>The same device with two families: one that only presents, then one that does both.\<close>

definition example_device_present_first :: VkPhysicalDevice where
  "example_device_present_first =
     example_device
       \<lparr>queueFamilyProperties := [\<lparr>queueFlags = 4\<rparr>, \<lparr>queueFlags = 7\<rparr>],
        surfaceSupport := (\<lambda>i. 1)\<rparr>"

text \<open>The same device with three families: presentation only, nothing, graphics only.\<close>

definition example_device_split :: VkPhysicalDevice where
  "example_device_split =
     example_device
       \<lparr>queueFamilyProperties := [\<lparr>queueFlags = 4\<rparr>, \<lparr>queueFlags = 2\<rparr>, \<lparr>queueFlags = 1\<rparr>],
        surfaceSupport := (\<lambda>i. if i = 0 then 1 else 0)\<rparr>"

text \<open>The same device with one graphics family and no family that presents.\<close>

definition example_device_no_present :: VkPhysicalDevice where
  "example_device_no_present =
     example_device
       \<lparr>queueFamilyProperties := [\<lparr>queueFlags = 1\<rparr>],
        surfaceSupport := (\<lambda>i. 0)\<rparr>"

text \<open>An application that already holds a swap chain (handle 7) and a window of 800 by 600 pixels.\<close>

definition example_app :: HelloTriangleApplication where
  "example_app =
     \<lparr>surface = 1, physicalDevice = example_device, swapChain = 7,
      window_framebufferSize = (800, 600)\<rparr>"

lemmas vk_constants =
  VK_NULL_HANDLE_def VK_TRUE_def VK_QUEUE_GRAPHICS_BIT_def VK_FORMAT_B8G8R8A8_SRGB_def
  VK_COLOR_SPACE_SRGB_NONLINEAR_KHR_def VK_PRESENT_MODE_IMMEDIATE_KHR_def
  VK_PRESENT_MODE_MAILBOX_KHR_def VK_PRESENT_MODE_FIFO_KHR_def
  VK_PRESENT_MODE_FIFO_RELAXED_KHR_def VK_SHARING_MODE_EXCLUSIVE_def
  VK_SHARING_MODE_CONCURRENT_def VK_IMAGE_USAGE_COLOR_ATTACHMENT_BIT_def
  VK_COMPOSITE_ALPHA_OPAQUE_BIT_KHR_def VK_KHR_SWAPCHAIN_EXTENSION_NAME_def uint32_max_def

lemmas example_defs =
  example_capabilities_def example_device_def example_device_present_first_def
  example_device_split_def example_device_no_present_def example_app_def

section \<open>Queue families: the scan\<close>

lemma find_snoc:
  "find P (xs @ [x]) =
     (case find P xs of None \<Rightarrow> (if P x then Some x else None) | Some y \<Rightarrow> Some y)"
  by (induction xs) auto

lemma findQueueFamilies_loop_bounds:
  "findQueueFamilies_loop s qs i ind = (ind', k) \<Longrightarrow> i \<le> k \<and> k \<le> i + length qs"
proof (induction qs arbitrary: i ind)
  case Nil
  then show ?case by simp
next
  case (Cons q rest)
  then show ?case
    by (fastforce simp: Let_def split: if_splits)
qed

text \<open>The loop is left by \<^verbatim>\<open>break\<close> exactly when the indices it returns are complete.\<close>

lemma findQueueFamilies_loop_break_iff:
  "findQueueFamilies_loop s qs i ind = (ind', k) \<Longrightarrow> \<not> isComplete ind \<Longrightarrow>
   (k < i + length qs \<longleftrightarrow> isComplete ind')"
proof (induction qs arbitrary: i ind)
  case Nil
  then show ?case by simp
next
  case (Cons q rest)
  then show ?case
    by (fastforce simp: Let_def split: if_splits)
qed

text \<open>Before the family at which the loop is left, the indices were never complete.\<close>

lemma findQueueFamilies_loop_prefix_incomplete:
  "findQueueFamilies_loop s qs i ind = (ind', k) \<Longrightarrow> i + m < k \<Longrightarrow>
   \<not> isComplete (fst (findQueueFamilies_loop s (take (Suc m) qs) i ind))"
proof (induction qs arbitrary: i ind m)
  case Nil
  then show ?case by simp
next
  case (Cons q rest)
  let ?ind1 = "if queueFlags q AND VK_QUEUE_GRAPHICS_BIT \<noteq> 0
               then ind\<lparr>graphicsFamily := Some (of_nat i)\<rparr> else ind"
  let ?ind2 = "if s (of_nat i) \<noteq> 0 then ?ind1\<lparr>presentFamily := Some (of_nat i)\<rparr> else ?ind1"
  show ?case
  proof (cases "isComplete ?ind2")
    case True
    with Cons.prems show ?thesis by (simp add: Let_def)
  next
    case False
    with Cons.prems have rest: "findQueueFamilies_loop s rest (Suc i) ?ind2 = (ind', k)"
      by (simp add: Let_def)
    show ?thesis
    proof (cases m)
      case 0
      with False show ?thesis by (simp add: Let_def)
    next
      case (Suc m')
      with Cons.prems have "Suc i + m' < k" by simp
      from Cons.IH [OF rest this] False Suc show ?thesis by (simp add: Let_def)
    qed
  qed
qed

text \<open>
  Each index the loop returns is the last family in the visited range that matched, or
  the value the loop started with when none did. The loop runs on the families from
  position \<open>i\<close> on, so that the positions are those of the whole list.
\<close>

lemma findQueueFamilies_loop_last_match:
  "findQueueFamilies_loop s (drop i fams) i ind = (ind', k) \<Longrightarrow>
   n = min (Suc k) (length fams) \<Longrightarrow>
     graphicsFamily ind' =
       (case find (\<lambda>j. queueFlags (fams ! j) AND VK_QUEUE_GRAPHICS_BIT \<noteq> 0) (rev [i..<n]) of
          None \<Rightarrow> graphicsFamily ind | Some j \<Rightarrow> Some (of_nat j))
   \<and> presentFamily ind' =
       (case find (\<lambda>j. s (of_nat j) \<noteq> 0) (rev [i..<n]) of
          None \<Rightarrow> presentFamily ind | Some j \<Rightarrow> Some (of_nat j))"
proof (induction "length fams - i" arbitrary: i ind)
  case 0
  then show ?case by simp
next
  case (Suc d)
  then have i: "i < length fams" by simp
  then have dr: "drop i fams = fams ! i # drop (Suc i) fams"
    by (simp add: Cons_nth_drop_Suc)
  let ?ind1 = "if queueFlags (fams ! i) AND VK_QUEUE_GRAPHICS_BIT \<noteq> 0
               then ind\<lparr>graphicsFamily := Some (of_nat i)\<rparr> else ind"
  let ?ind2 = "if s (of_nat i) \<noteq> 0 then ?ind1\<lparr>presentFamily := Some (of_nat i)\<rparr> else ?ind1"
  show ?case
  proof (cases "isComplete ?ind2")
    case True
    with Suc.prems(1) have "ind' = ?ind2" "k = i"
      unfolding dr by (simp_all add: Let_def split: if_splits)
    with i Suc.prems(2) show ?thesis by simp
  next
    case False
    with Suc.prems(1)
    have rest: "findQueueFamilies_loop s (drop (Suc i) fams) (Suc i) ?ind2 = (ind', k)"
      unfolding dr by (simp add: Let_def split: if_splits)
    from findQueueFamilies_loop_bounds [OF rest] have "Suc i \<le> k" by simp
    with i Suc.prems(2) have "i < n" by simp
    then have up: "rev [i..<n] = rev [Suc i..<n] @ [i]" by (simp add: upt_conv_Cons)
    from Suc.hyps(2) have "d = length fams - Suc i" by simp
    from Suc.hyps(1) [OF this rest Suc.prems(2)] show ?thesis
      unfolding up find_snoc by (simp split: option.splits)
  qed
qed

lemma findQueueFamilies_scan_prefix:
  "findQueueFamilies_scan device = (indices, k) \<Longrightarrow> j < k \<Longrightarrow>
   \<not> isComplete (findQueueFamilies
       (device\<lparr>queueFamilyProperties := take (Suc j) (queueFamilyProperties device)\<rparr>))"
  using findQueueFamilies_loop_prefix_incomplete
    [of "surfaceSupport device" "queueFamilyProperties device" 0 _ indices k j]
  by (simp add: findQueueFamilies_scan_def findQueueFamilies_def)

lemma example_scan:
  "findQueueFamilies example_device = \<lparr>graphicsFamily = Some 1, presentFamily = Some 1\<rparr>"
  "findQueueFamilies example_device_split = \<lparr>graphicsFamily = Some 2, presentFamily = Some 0\<rparr>"
  "findQueueFamilies example_device_no_present = \<lparr>graphicsFamily = Some 0, presentFamily = None\<rparr>"
  by (simp_all add: findQueueFamilies_def findQueueFamilies_scan_def example_defs vk_constants
      isComplete_def)

section \<open>Helper facts on suitability, selection and the create info\<close>

lemma fold_erase: "fold (\<lambda>x S. S - {x}) xs S = S - set xs"
  by (induction xs arbitrary: S) auto

lemma checkDeviceExtensionSupport_iff:
  "checkDeviceExtensionSupport device \<longleftrightarrow>
     VK_KHR_SWAPCHAIN_EXTENSION_NAME \<in> set (extensionProperties device)"
  by (simp add: checkDeviceExtensionSupport_def fold_erase deviceExtensions_def)

lemma isDeviceSuitable_conv:
  "isDeviceSuitable device \<longleftrightarrow>
     surfaceFormats device \<noteq> [] \<and> surfacePresentModes device \<noteq> []
     \<and> isComplete (findQueueFamilies device)
     \<and> VK_KHR_SWAPCHAIN_EXTENSION_NAME \<in> set (extensionProperties device)"
  by (auto simp: isDeviceSuitable_def Let_def checkDeviceExtensionSupport_iff
      querySwapChainSupport_def)

text \<open>On a list that holds the preferred pair, the first such entry is returned.\<close>

lemma chooseSwapSurfaceFormat_find:
  "chooseSwapSurfaceFormat availableFormats =
     (case find (\<lambda>f. format f = VK_FORMAT_B8G8R8A8_SRGB
                    \<and> colorSpace f = VK_COLOR_SPACE_SRGB_NONLINEAR_KHR) availableFormats of
        Some f \<Rightarrow> Inr f
      | None \<Rightarrow> Inl no_return_value)"
  by (induction availableFormats) auto

lemma std_clamp_ordered:
  "lo \<le> hi \<Longrightarrow>
   std_clamp v lo hi = Inr (if v < lo then lo else if hi < v then hi else v)"
  by (simp add: std_clamp_def not_less [symmetric])

text \<open>
  When the format and the extent are chosen and both indices hold a value, the create
  info is built, with these fields.
\<close>

lemma createSwapChain_createInfo_Inr:
  assumes "chooseSwapSurfaceFormat (surfaceFormats (physicalDevice app)) = Inr surfaceFormat"
    and "chooseSwapExtent (surfaceCapabilities (physicalDevice app))
           (window_framebufferSize app) = Inr extent"
    and "graphicsFamily (findQueueFamilies (physicalDevice app)) = Some g"
    and "presentFamily (findQueueFamilies (physicalDevice app)) = Some p"
  shows "createSwapChain_createInfo app = Inr
          \<lparr>surface_ci = surface app,
           minImageCount_ci = createSwapChain_imageCount (surfaceCapabilities (physicalDevice app)),
           imageFormat = format surfaceFormat,
           imageColorSpace = colorSpace surfaceFormat,
           imageExtent = extent,
           imageArrayLayers = 1,
           imageUsage = VK_IMAGE_USAGE_COLOR_ATTACHMENT_BIT,
           imageSharingMode =
             (if g \<noteq> p then VK_SHARING_MODE_CONCURRENT else VK_SHARING_MODE_EXCLUSIVE),
           queueFamilyIndexCount = (if g \<noteq> p then 2 else 0),
           pQueueFamilyIndices = (if g \<noteq> p then Some [g, p] else None),
           preTransform = currentTransform (surfaceCapabilities (physicalDevice app)),
           compositeAlpha = VK_COMPOSITE_ALPHA_OPAQUE_BIT_KHR,
           presentMode = chooseSwapPresentMode (surfacePresentModes (physicalDevice app)),
           clipped = VK_TRUE,
           oldSwapChain = VK_NULL_HANDLE\<rparr>"
  using assms
  by (simp add: createSwapChain_createInfo_def createSwapChain_sharing_def
      querySwapChainSupport_def optional_value_def Let_def)

lemma createSwapChain_createInfo_InrD:
  assumes "createSwapChain_createInfo app = Inr createInfo"
  shows "\<exists>surfaceFormat extent g p.
      chooseSwapSurfaceFormat (surfaceFormats (physicalDevice app)) = Inr surfaceFormat
    \<and> chooseSwapExtent (surfaceCapabilities (physicalDevice app))
          (window_framebufferSize app) = Inr extent
    \<and> graphicsFamily (findQueueFamilies (physicalDevice app)) = Some g
    \<and> presentFamily (findQueueFamilies (physicalDevice app)) = Some p"
  using assms
  by (auto simp: createSwapChain_createInfo_def createSwapChain_sharing_def
      querySwapChainSupport_def optional_value_def Let_def
      split: sum.splits option.splits)

text \<open>An index without a value makes \<^verbatim>\<open>value()\<close> throw before the create info is filled.\<close>

lemma createSwapChain_createInfo_bad_optional:
  assumes "chooseSwapSurfaceFormat (surfaceFormats (physicalDevice app)) = Inr surfaceFormat"
    and "chooseSwapExtent (surfaceCapabilities (physicalDevice app))
           (window_framebufferSize app) = Inr extent"
    and "graphicsFamily (findQueueFamilies (physicalDevice app)) = None
         \<or> presentFamily (findQueueFamilies (physicalDevice app)) = None"
  shows "createSwapChain_createInfo app = Inl bad_optional_access"
  using assms
  by (auto simp: createSwapChain_createInfo_def createSwapChain_sharing_def
      querySwapChainSupport_def optional_value_def Let_def
      split: option.splits)

lemma example_format:
  "chooseSwapSurfaceFormat (surfaceFormats example_device) = Inr \<lparr>format = 50, colorSpace = 0\<rparr>"
  by (simp add: example_defs vk_constants)

lemma example_extent:
  "chooseSwapExtent example_capabilities (800, 600) = Inr \<lparr>width = 800, height = 600\<rparr>"
  by (simp add: chooseSwapExtent_def std_clamp_def example_defs vk_constants)

text \<open>The image count without the local variable, and read as a natural number.\<close>

lemma createSwapChain_imageCount_eq:
  "createSwapChain_imageCount caps =
     (if maxImageCount caps \<noteq> 0 \<and> maxImageCount caps < minImageCount caps + 1
      then maxImageCount caps else minImageCount caps + 1)"
  by (simp add: createSwapChain_imageCount_def Let_def word_greater_zero_iff)

lemma createSwapChain_imageCount_unat:
  assumes ne: "minImageCount caps \<noteq> uint32_max"
  shows "unat (createSwapChain_imageCount caps) =
     (if unat (maxImageCount caps) \<noteq> 0 \<and> unat (maxImageCount caps) < unat (minImageCount caps) + 1
      then unat (maxImageCount caps) else unat (minImageCount caps) + 1)"
proof -
  have "minImageCount caps + 1 \<noteq> 0"
  proof
    assume "minImageCount caps + 1 = 0"
    then have "minImageCount caps = - 1" by (simp add: add_eq_0_iff2)
    with ne show False by (simp add: uint32_max_def)
  qed
  then have s: "unat (minImageCount caps + 1) = unat (minImageCount caps) + 1"
    using unatSuc [of "minImageCount caps"] by (simp add: add.commute)
  show ?thesis
    by (simp add: createSwapChain_imageCount_eq word_less_nat_alt s unat_eq_0 del: One_nat_def)
qed

text \<open>The create infos of the example application, evaluated.\<close>

lemma example_createInfo:
  "createSwapChain_createInfo example_app = Inr
          \<lparr>surface_ci = 1,
           minImageCount_ci = 3,
           imageFormat = 50,
           imageColorSpace = 0,
           imageExtent = \<lparr>width = 800, height = 600\<rparr>,
           imageArrayLayers = 1,
           imageUsage = 16,
           imageSharingMode = 0,
           queueFamilyIndexCount = 0,
           pQueueFamilyIndices = None,
           preTransform = 1,
           compositeAlpha = 1,
           presentMode = 1,
           clipped = 1,
           oldSwapChain = 0\<rparr>"
proof -
  have app: "physicalDevice example_app = example_device"
    "window_framebufferSize example_app = (800, 600)" "surface example_app = 1"
    by (simp_all add: example_app_def)
  have dev: "surfaceCapabilities example_device = example_capabilities"
    "surfacePresentModes example_device = [2, 1]"
    by (simp_all add: example_device_def)
  have caps: "createSwapChain_imageCount example_capabilities = 3"
    "currentTransform example_capabilities = 1"
    by (simp_all add: createSwapChain_imageCount_eq example_capabilities_def)
  show ?thesis
    using createSwapChain_createInfo_Inr [of example_app "\<lparr>format = 50, colorSpace = 0\<rparr>"
        "\<lparr>width = 800, height = 600\<rparr>" 1 1]
    by (simp add: app dev caps example_format example_extent example_scan vk_constants)
qed

lemma example_createInfo_split:
  "createSwapChain_createInfo (example_app\<lparr>physicalDevice := example_device_split\<rparr>) = Inr
          \<lparr>surface_ci = 1,
           minImageCount_ci = 3,
           imageFormat = 50,
           imageColorSpace = 0,
           imageExtent = \<lparr>width = 800, height = 600\<rparr>,
           imageArrayLayers = 1,
           imageUsage = 16,
           imageSharingMode = 1,
           queueFamilyIndexCount = 2,
           pQueueFamilyIndices = Some [2, 0],
           preTransform = 1,
           compositeAlpha = 1,
           presentMode = 1,
           clipped = 1,
           oldSwapChain = 0\<rparr>"
proof -
  have app: "physicalDevice (example_app\<lparr>physicalDevice := example_device_split\<rparr>) = example_device_split"
    "window_framebufferSize (example_app\<lparr>physicalDevice := example_device_split\<rparr>) = (800, 600)"
    "surface (example_app\<lparr>physicalDevice := example_device_split\<rparr>) = 1"
    by (simp_all add: example_app_def)
  have dev: "surfaceCapabilities example_device_split = example_capabilities"
    "surfacePresentModes example_device_split = [2, 1]"
    "surfaceFormats example_device_split = surfaceFormats example_device"
    by (simp_all add: example_device_def example_device_split_def)
  have caps: "createSwapChain_imageCount example_capabilities = 3"
    "currentTransform example_capabilities = 1"
    by (simp_all add: createSwapChain_imageCount_eq example_capabilities_def)
  show ?thesis
    using createSwapChain_createInfo_Inr [of "example_app\<lparr>physicalDevice := example_device_split\<rparr>"
        "\<lparr>format = 50, colorSpace = 0\<rparr>" "\<lparr>width = 800, height = 600\<rparr>" 2 0]
    by (simp add: app dev caps example_format example_extent example_scan vk_constants)
qed

text \<open>The fields of a create info that was built, read back.\<close>

lemma createSwapChain_createInfo_fields:
  assumes "createSwapChain_createInfo app = Inr createInfo"
  shows "minImageCount_ci createInfo = createSwapChain_imageCount (surfaceCapabilities (physicalDevice app))"
    and "createSwapChain_sharing (findQueueFamilies (physicalDevice app)) =
          Inr (imageSharingMode createInfo, queueFamilyIndexCount createInfo, pQueueFamilyIndices createInfo)"
    and "oldSwapChain createInfo = VK_NULL_HANDLE"
  using assms
  by (auto simp: createSwapChain_createInfo_def querySwapChainSupport_def Let_def
      split: sum.splits prod.splits)

text \<open>
  The example device without a presenting family passes the suitability test: its
  indices hold a graphics family, which is all that \<^verbatim>\<open>isComplete\<close> asks for.
\<close>

lemma example_no_present_suitable:
  "isDeviceSuitable example_device_no_present"
proof -
  have "surfaceFormats example_device_no_present \<noteq> []"
    "surfacePresentModes example_device_no_present \<noteq> []"
    "VK_KHR_SWAPCHAIN_EXTENSION_NAME \<in> set (extensionProperties example_device_no_present)"
    by (simp_all add: example_defs vk_constants)
  then show ?thesis
    by (simp add: isDeviceSuitable_conv example_scan isComplete_def)
qed

text \<open>An unsuitable device is passed over: the enumeration goes on with the next one.\<close>

lemma pickPhysicalDevice_skips_unsuitable:
  "\<not> isDeviceSuitable device \<Longrightarrow>
   pickPhysicalDevice (device # device' # devices) = pickPhysicalDevice (device' # devices)"
  by (simp add: pickPhysicalDevice_def)

section \<open>The claims\<close>

subsection \<open>C1: the queue family scan\<close>

text \<open>
  C1 (as amended). \<^verbatim>\<open>findQueueFamilies\<close> scans the families in index order and assigns
  a candidate at every visited family that has the capability, so a later match
  overwrites an earlier one: with \<open>n\<close> the number of families visited, the graphics
  candidate is the last index below \<open>n\<close> whose family advertises graphics, the present
  candidate is the last index below \<open>n\<close> with surface support, and a candidate is absent
  exactly when no visited family matches. The scan is left by \<^verbatim>\<open>break\<close> at index \<open>k\<close>
  exactly when the returned indices satisfy \<open>isComplete\<close>; after every earlier family
  \<open>isComplete\<close> was false, and so the two candidates were never both set before the scan
  stopped. On a family list where index 0 has no graphics capability and index 1 has
  graphics and presentation combined, the result is graphics = 1, present = 1 and the
  scan stops at index 1.
\<close>

theorem findQueueFamilies_last_match_until_complete:
  assumes scan: "findQueueFamilies_scan device = (indices, k)"
    and n: "n = min (Suc k) (length (queueFamilyProperties device))"
  shows
    "graphicsFamily indices =
       map_option of_nat
         (find (\<lambda>j. queueFlags (queueFamilyProperties device ! j) AND VK_QUEUE_GRAPHICS_BIT \<noteq> 0)
            (rev [0..<n]))
     \<and> presentFamily indices =
       map_option of_nat (find (\<lambda>j. surfaceSupport device (of_nat j) \<noteq> 0) (rev [0..<n]))
     \<and> (k < length (queueFamilyProperties device) \<longleftrightarrow> isComplete indices)
     \<and> (\<forall>j<k. \<not> isComplete (findQueueFamilies
            (device\<lparr>queueFamilyProperties := take (Suc j) (queueFamilyProperties device)\<rparr>)))
     \<and> (\<forall>j<k. graphicsFamily (findQueueFamilies
            (device\<lparr>queueFamilyProperties := take (Suc j) (queueFamilyProperties device)\<rparr>)) = None
          \<or> presentFamily (findQueueFamilies
            (device\<lparr>queueFamilyProperties := take (Suc j) (queueFamilyProperties device)\<rparr>)) = None)
     \<and> (2 \<le> length (queueFamilyProperties device)
          \<and> queueFlags (queueFamilyProperties device ! 0) AND VK_QUEUE_GRAPHICS_BIT = 0
          \<and> queueFlags (queueFamilyProperties device ! 1) AND VK_QUEUE_GRAPHICS_BIT \<noteq> 0
          \<and> surfaceSupport device 1 \<noteq> 0
        \<longrightarrow> indices = \<lparr>graphicsFamily = Some 1, presentFamily = Some 1\<rparr> \<and> k = 1)"
proof -
  let ?fams = "queueFamilyProperties device"
  let ?init = "\<lparr>graphicsFamily = None, presentFamily = None\<rparr>"
  from scan
  have loop: "findQueueFamilies_loop (surfaceSupport device) (drop 0 ?fams) 0 ?init = (indices, k)"
    by (simp add: findQueueFamilies_scan_def)
  from findQueueFamilies_loop_last_match [OF loop n]
  have last: "graphicsFamily indices =
       map_option of_nat
         (find (\<lambda>j. queueFlags (?fams ! j) AND VK_QUEUE_GRAPHICS_BIT \<noteq> 0) (rev [0..<n]))"
    "presentFamily indices =
       map_option of_nat (find (\<lambda>j. surfaceSupport device (of_nat j) \<noteq> 0) (rev [0..<n]))"
    by (simp_all split: option.splits)
  have "\<not> isComplete ?init" by (simp add: isComplete_def)
  with findQueueFamilies_loop_break_iff [of "surfaceSupport device" ?fams 0 ?init indices k] scan
  have brk: "k < length ?fams \<longleftrightarrow> isComplete indices"
    by (simp add: findQueueFamilies_scan_def)
  have pre: "\<forall>j<k. \<not> isComplete (findQueueFamilies
            (device\<lparr>queueFamilyProperties := take (Suc j) ?fams\<rparr>))"
    using findQueueFamilies_scan_prefix [OF scan] by blast
  then have both: "\<forall>j<k. graphicsFamily (findQueueFamilies
            (device\<lparr>queueFamilyProperties := take (Suc j) ?fams\<rparr>)) = None
          \<or> presentFamily (findQueueFamilies
            (device\<lparr>queueFamilyProperties := take (Suc j) ?fams\<rparr>)) = None"
    by (simp add: isComplete_def)
  have ex: "indices = \<lparr>graphicsFamily = Some 1, presentFamily = Some 1\<rparr> \<and> k = 1"
    if h: "2 \<le> length ?fams"
      "queueFlags (?fams ! 0) AND VK_QUEUE_GRAPHICS_BIT = 0"
      "queueFlags (?fams ! 1) AND VK_QUEUE_GRAPHICS_BIT \<noteq> 0"
      "surfaceSupport device 1 \<noteq> 0"
  proof -
    from h(1) obtain q0 q1 rest where fams: "?fams = q0 # q1 # rest"
      by (cases ?fams; cases "tl ?fams") auto
    with h scan show ?thesis
      by (auto simp: findQueueFamilies_scan_def Let_def isComplete_def split: if_splits)
  qed
  from last brk pre both ex show ?thesis by blast
qed

text \<open>
  The example device: family 0 has neither capability, family 1 has both. Two families
  are visited, the scan stops at index 1 with both candidates 1, and after family 0
  alone the indices were not complete.
\<close>

theorem findQueueFamilies_last_match_until_complete_witness:
  "findQueueFamilies_scan example_device = (\<lparr>graphicsFamily = Some 1, presentFamily = Some 1\<rparr>, 1)
   \<and> find (\<lambda>j. queueFlags (queueFamilyProperties example_device ! j) AND VK_QUEUE_GRAPHICS_BIT \<noteq> 0)
        (rev [0..<2]) = Some 1
   \<and> find (\<lambda>j. surfaceSupport example_device (of_nat j) \<noteq> 0) (rev [0..<2]) = Some 1
   \<and> isComplete \<lparr>graphicsFamily = Some 1, presentFamily = Some 1\<rparr>
   \<and> \<not> isComplete (findQueueFamilies
          (example_device\<lparr>queueFamilyProperties := take 1 (queueFamilyProperties example_device)\<rparr>))"
proof -
  have scan: "findQueueFamilies_scan example_device =
      (\<lparr>graphicsFamily = Some 1, presentFamily = Some 1\<rparr>, 1)"
    by (simp add: findQueueFamilies_scan_def example_defs vk_constants isComplete_def)
  have n: "(2::nat) = min (Suc 1) (length (queueFamilyProperties example_device))"
    by (simp add: example_defs)
  have g: "find (\<lambda>j. queueFlags (queueFamilyProperties example_device ! j)
                      AND VK_QUEUE_GRAPHICS_BIT \<noteq> 0) (rev [0..<2]) = Some 1"
    by code_simp
  have p: "find (\<lambda>j. surfaceSupport example_device (of_nat j) \<noteq> 0) (rev [0..<2]) = Some 1"
    by code_simp
  from findQueueFamilies_last_match_until_complete [OF scan n] scan g p
  show ?thesis
    by (simp add: isComplete_def)
qed

text \<open>
  The claim as stated fails where a family before the first graphics family presents:
  family 0 of this device supports presentation, family 1 supports graphics and
  presentation, and the present candidate returned is 1, not the first match 0.
\<close>

theorem findQueueFamilies_present_not_first:
  "surfaceSupport example_device_present_first 0 \<noteq> 0
   \<and> presentFamily (findQueueFamilies example_device_present_first) = Some 1"
  by (simp add: findQueueFamilies_def findQueueFamilies_scan_def example_defs vk_constants
      isComplete_def)

subsection \<open>C2: the surface format\<close>

text \<open>
  C2. The claim asks for the first listed entry when no entry is the preferred pair.
  The code has no such fallback: on the one-entry list holding \<^verbatim>\<open>VK_FORMAT_B8G8R8A8_UNORM\<close>
  (44) with the nonlinear sRGB colour space, the loop ends without a match and the
  function ends without returning a value.
\<close>

theorem chooseSwapSurfaceFormat_no_fallback:
  "chooseSwapSurfaceFormat [\<lparr>format = 44, colorSpace = 0\<rparr>] = Inl no_return_value"
  by (simp add: vk_constants)

subsection \<open>C3: completeness of the indices\<close>

text \<open>
  C3. The claim asks that \<^verbatim>\<open>isComplete\<close> hold only when both indices have a value. The
  code tests the graphics index alone: indices with graphics family 0 and no present
  family are complete. These are the indices of the example device without a presenting
  family, which \<^verbatim>\<open>isDeviceSuitable\<close> accepts, and for which \<^verbatim>\<open>createSwapChain\<close> then
  throws at \<^verbatim>\<open>indices.presentFamily.value()\<close>.
\<close>

theorem isComplete_ignores_presentFamily:
  "isComplete \<lparr>graphicsFamily = Some 0, presentFamily = None\<rparr>
   \<and> findQueueFamilies example_device_no_present = \<lparr>graphicsFamily = Some 0, presentFamily = None\<rparr>
   \<and> isDeviceSuitable example_device_no_present
   \<and> createSwapChain_createInfo (example_app\<lparr>physicalDevice := example_device_no_present\<rparr>)
       = Inl bad_optional_access"
proof -
  have dev: "surfaceFormats example_device_no_present = surfaceFormats example_device"
    "surfaceCapabilities example_device_no_present = example_capabilities"
    "surfacePresentModes example_device_no_present = [2, 1]"
    "extensionProperties example_device_no_present = [''VK_KHR_maintenance1'', ''VK_KHR_swapchain'']"
    by (simp_all add: example_defs)
  note suit = example_no_present_suitable
  have "createSwapChain_createInfo (example_app\<lparr>physicalDevice := example_device_no_present\<rparr>)
       = Inl bad_optional_access"
    by (rule createSwapChain_createInfo_bad_optional
          [where surfaceFormat = "\<lparr>format = 50, colorSpace = 0\<rparr>"
             and extent = "\<lparr>width = 800, height = 600\<rparr>"])
      (simp_all add: example_app_def dev example_format example_extent example_scan)
  with suit show ?thesis by (simp add: example_scan isComplete_def)
qed

subsection \<open>C4: the extent\<close>

text \<open>
  C4. The code recognises the let-the-application-choose marker by the width of
  \<open>currentExtent\<close> being the maximum of \<^verbatim>\<open>uint32_t\<close>. For every capability record
  whose current extent is not the marker, \<^verbatim>\<open>chooseSwapExtent\<close> returns \<open>currentExtent\<close>
  as it is, whatever the framebuffer size. For every record whose current extent is the
  marker, it returns the framebuffer size (converted to \<^verbatim>\<open>uint32_t\<close>) with the width and
  the height each clamped on its own: the lower bound when below it, the upper bound
  when above it, unchanged otherwise, so that the result lies within
  \<open>minImageExtent\<close> and \<open>maxImageExtent\<close> in both components. The bounds are taken to be
  ordered, as \<^verbatim>\<open>std::clamp\<close> requires and an interval needs to be inhabited.
\<close>

theorem chooseSwapExtent_current_or_clamped:
  "(width (currentExtent caps) \<noteq> uint32_max \<longrightarrow>
      chooseSwapExtent caps framebufferSize = Inr (currentExtent caps))
   \<and> (width (currentExtent caps) = uint32_max
        \<and> width (minImageExtent caps) \<le> width (maxImageExtent caps)
        \<and> height (minImageExtent caps) \<le> height (maxImageExtent caps) \<longrightarrow>
      chooseSwapExtent caps (w, h) =
        Inr \<lparr>width =
               (if word_of_int w < width (minImageExtent caps) then width (minImageExtent caps)
                else if width (maxImageExtent caps) < word_of_int w then width (maxImageExtent caps)
                else word_of_int w),
             height =
               (if word_of_int h < height (minImageExtent caps) then height (minImageExtent caps)
                else if height (maxImageExtent caps) < word_of_int h then height (maxImageExtent caps)
                else word_of_int h)\<rparr>
      \<and> (\<forall>extent. chooseSwapExtent caps (w, h) = Inr extent \<longrightarrow>
            width (minImageExtent caps) \<le> width extent
            \<and> width extent \<le> width (maxImageExtent caps)
            \<and> height (minImageExtent caps) \<le> height extent
            \<and> height extent \<le> height (maxImageExtent caps)))"
proof -
  have verbatim: "chooseSwapExtent caps framebufferSize = Inr (currentExtent caps)"
    if "width (currentExtent caps) \<noteq> uint32_max"
    using that by (simp add: chooseSwapExtent_def)
  have clamped: "chooseSwapExtent caps (w, h) =
        Inr \<lparr>width =
               (if word_of_int w < width (minImageExtent caps) then width (minImageExtent caps)
                else if width (maxImageExtent caps) < word_of_int w then width (maxImageExtent caps)
                else word_of_int w),
             height =
               (if word_of_int h < height (minImageExtent caps) then height (minImageExtent caps)
                else if height (maxImageExtent caps) < word_of_int h then height (maxImageExtent caps)
                else word_of_int h)\<rparr>"
    if "width (currentExtent caps) = uint32_max"
      "width (minImageExtent caps) \<le> width (maxImageExtent caps)"
      "height (minImageExtent caps) \<le> height (maxImageExtent caps)"
    using that by (simp add: chooseSwapExtent_def Let_def std_clamp_ordered)
  have bounds: "width (minImageExtent caps) \<le> width extent
            \<and> width extent \<le> width (maxImageExtent caps)
            \<and> height (minImageExtent caps) \<le> height extent
            \<and> height extent \<le> height (maxImageExtent caps)"
    if "width (currentExtent caps) = uint32_max"
      "width (minImageExtent caps) \<le> width (maxImageExtent caps)"
      "height (minImageExtent caps) \<le> height (maxImageExtent caps)"
      "chooseSwapExtent caps (w, h) = Inr extent" for extent
    using that(4) unfolding clamped [OF that(1-3)] using that(2,3) by auto
  from verbatim clamped bounds show ?thesis by blast
qed

text \<open>
  An explicit current extent of 800 by 600 is returned for a framebuffer of 1024 by 768;
  with the marker and the bounds 1 and 4096, a framebuffer of 5000 by 0 becomes 4096 by 1.
\<close>

theorem chooseSwapExtent_current_or_clamped_witness:
  "chooseSwapExtent (example_capabilities\<lparr>currentExtent := \<lparr>width = 800, height = 600\<rparr>\<rparr>) (1024, 768)
     = Inr \<lparr>width = 800, height = 600\<rparr>
   \<and> chooseSwapExtent example_capabilities (5000, 0) = Inr \<lparr>width = 4096, height = 1\<rparr>"
  using chooseSwapExtent_current_or_clamped
      [of "example_capabilities\<lparr>currentExtent := \<lparr>width = 800, height = 600\<rparr>\<rparr>" "(1024, 768)" 0 0]
    chooseSwapExtent_current_or_clamped [of example_capabilities "(0, 0)" 5000 0]
  by (simp add: example_capabilities_def uint32_max_def)

subsection \<open>C5: the presentation mode\<close>

text \<open>
  C5. For every list of presentation modes, \<^verbatim>\<open>chooseSwapPresentMode\<close> returns the
  mailbox mode when it occurs anywhere in the list and the FIFO mode otherwise. The
  function is total, so the selection never fails, and its value is one of the two.
\<close>

theorem chooseSwapPresentMode_mailbox_or_fifo:
  "chooseSwapPresentMode availablePresentModes =
     (if VK_PRESENT_MODE_MAILBOX_KHR \<in> set availablePresentModes
      then VK_PRESENT_MODE_MAILBOX_KHR else VK_PRESENT_MODE_FIFO_KHR)"
  by (induction availablePresentModes) auto

text \<open>
  The mailbox mode in second place is found; a list without it, and the empty list,
  give FIFO.
\<close>

theorem chooseSwapPresentMode_mailbox_or_fifo_witness:
  "chooseSwapPresentMode
     [VK_PRESENT_MODE_FIFO_KHR, VK_PRESENT_MODE_MAILBOX_KHR, VK_PRESENT_MODE_IMMEDIATE_KHR]
     = VK_PRESENT_MODE_MAILBOX_KHR
   \<and> chooseSwapPresentMode [VK_PRESENT_MODE_IMMEDIATE_KHR, VK_PRESENT_MODE_FIFO_RELAXED_KHR]
     = VK_PRESENT_MODE_FIFO_KHR
   \<and> chooseSwapPresentMode [] = VK_PRESENT_MODE_FIFO_KHR"
  using chooseSwapPresentMode_mailbox_or_fifo
      [of "[VK_PRESENT_MODE_FIFO_KHR, VK_PRESENT_MODE_MAILBOX_KHR, VK_PRESENT_MODE_IMMEDIATE_KHR]"]
    chooseSwapPresentMode_mailbox_or_fifo
      [of "[VK_PRESENT_MODE_IMMEDIATE_KHR, VK_PRESENT_MODE_FIFO_RELAXED_KHR]"]
    chooseSwapPresentMode_mailbox_or_fifo [of "[]"]
  by (simp add: vk_constants)

subsection \<open>C6: the sharing mode\<close>

text \<open>
  C6. \<^verbatim>\<open>createSwapChain\<close> builds its create info whenever a surface format and an
  extent are chosen and \<^verbatim>\<open>findQueueFamilies\<close> returns a graphics index \<open>g\<close> and a present
  index \<open>p\<close>, and the create info it hands to the create call then declares: when \<open>g\<close>
  and \<open>p\<close> differ, concurrent sharing with \<open>queueFamilyIndexCount = 2\<close> and exactly the
  two indices \<open>[g, p]\<close> listed; when they are the same, exclusive sharing with no index
  listed (count 0, null pointer). The sharing decision of lines 322-333 gives these
  values for every pair of indices, and no create info is built with other ones.
\<close>

theorem createSwapChain_sharing_mode:
  assumes "chooseSwapSurfaceFormat (surfaceFormats (physicalDevice app)) = Inr surfaceFormat"
    and "chooseSwapExtent (surfaceCapabilities (physicalDevice app))
           (window_framebufferSize app) = Inr extent"
    and "graphicsFamily (findQueueFamilies (physicalDevice app)) = Some g"
    and "presentFamily (findQueueFamilies (physicalDevice app)) = Some p"
  shows
    "map_sum id
       (\<lambda>createInfo. (imageSharingMode createInfo, queueFamilyIndexCount createInfo,
                      pQueueFamilyIndices createInfo))
       (createSwapChain_createInfo app)
      = Inr (if g \<noteq> p then (VK_SHARING_MODE_CONCURRENT, 2, Some [g, p])
             else (VK_SHARING_MODE_EXCLUSIVE, 0, None))
     \<and> createSwapChain_sharing \<lparr>graphicsFamily = Some g', presentFamily = Some p'\<rparr>
      = Inr (if g' \<noteq> p' then (VK_SHARING_MODE_CONCURRENT, 2, Some [g', p'])
             else (VK_SHARING_MODE_EXCLUSIVE, 0, None))
     \<and> (\<forall>createInfo. createSwapChain_createInfo app' = Inr createInfo \<longrightarrow>
          createSwapChain_sharing (findQueueFamilies (physicalDevice app')) =
            Inr (imageSharingMode createInfo, queueFamilyIndexCount createInfo,
                 pQueueFamilyIndices createInfo))"
proof -
  have built: "map_sum id
       (\<lambda>createInfo. (imageSharingMode createInfo, queueFamilyIndexCount createInfo,
                      pQueueFamilyIndices createInfo))
       (createSwapChain_createInfo app)
      = Inr (if g \<noteq> p then (VK_SHARING_MODE_CONCURRENT, 2, Some [g, p])
             else (VK_SHARING_MODE_EXCLUSIVE, 0, None))"
    by (simp add: createSwapChain_createInfo_Inr [OF assms])
  have decision: "createSwapChain_sharing \<lparr>graphicsFamily = Some g', presentFamily = Some p'\<rparr>
      = Inr (if g' \<noteq> p' then (VK_SHARING_MODE_CONCURRENT, 2, Some [g', p'])
             else (VK_SHARING_MODE_EXCLUSIVE, 0, None))"
    by (simp add: createSwapChain_sharing_def optional_value_def)
  from built decision createSwapChain_createInfo_fields(2) [of app'] show ?thesis
    by blast
qed

text \<open>
  The example application on the device with graphics on family 2 and presentation on
  family 0 builds a create info with concurrent sharing over [2, 0]; on the device with
  both on family 1 it builds one with exclusive sharing and no index listed. The indices
  0 and 2 give concurrent sharing over [0, 2].
\<close>

theorem createSwapChain_sharing_mode_witness:
  "map_sum id
     (\<lambda>createInfo. (imageSharingMode createInfo, queueFamilyIndexCount createInfo,
                    pQueueFamilyIndices createInfo))
     (createSwapChain_createInfo (example_app\<lparr>physicalDevice := example_device_split\<rparr>))
    = Inr (VK_SHARING_MODE_CONCURRENT, 2, Some [2, 0])
   \<and> map_sum id
     (\<lambda>createInfo. (imageSharingMode createInfo, queueFamilyIndexCount createInfo,
                    pQueueFamilyIndices createInfo))
     (createSwapChain_createInfo example_app)
    = Inr (VK_SHARING_MODE_EXCLUSIVE, 0, None)
   \<and> createSwapChain_sharing \<lparr>graphicsFamily = Some 0, presentFamily = Some 2\<rparr>
    = Inr (VK_SHARING_MODE_CONCURRENT, 2, Some [0, 2])"
proof -
  let ?split = "example_app\<lparr>physicalDevice := example_device_split\<rparr>"
  have fmt: "chooseSwapSurfaceFormat (surfaceFormats (physicalDevice ?split))
      = Inr \<lparr>format = 50, colorSpace = 0\<rparr>"
    "chooseSwapSurfaceFormat (surfaceFormats (physicalDevice example_app))
      = Inr \<lparr>format = 50, colorSpace = 0\<rparr>"
    by (simp_all add: example_defs vk_constants)
  have ext: "chooseSwapExtent (surfaceCapabilities (physicalDevice ?split))
        (window_framebufferSize ?split) = Inr \<lparr>width = 800, height = 600\<rparr>"
    "chooseSwapExtent (surfaceCapabilities (physicalDevice example_app))
        (window_framebufferSize example_app) = Inr \<lparr>width = 800, height = 600\<rparr>"
    using example_extent by (simp_all add: example_app_def example_device_def example_device_split_def)
  have ind: "graphicsFamily (findQueueFamilies (physicalDevice ?split)) = Some 2"
    "presentFamily (findQueueFamilies (physicalDevice ?split)) = Some 0"
    "graphicsFamily (findQueueFamilies (physicalDevice example_app)) = Some 1"
    "presentFamily (findQueueFamilies (physicalDevice example_app)) = Some 1"
    by (simp_all add: example_app_def example_scan)
  from createSwapChain_sharing_mode [OF fmt(1) ext(1) ind(1,2), of 0 2 example_app]
    createSwapChain_sharing_mode [OF fmt(2) ext(2) ind(3,4), of 0 2 example_app]
  show ?thesis by simp
qed

subsection \<open>C7: the image count\<close>

text \<open>
  C7. For every capability record the requested image count is \<open>minImageCount + 1\<close>,
  except that it is \<open>maxImageCount\<close> when that is nonzero and below \<open>minImageCount + 1\<close>;
  a zero \<open>maxImageCount\<close> never clamps. With minimum 2 and maximum 0 the count is 3, with
  minimum 3 and maximum 3 it is 3. The addition is the source's \<^verbatim>\<open>uint32_t\<close> addition;
  for every minimum below the largest \<^verbatim>\<open>uint32_t\<close> it is the successor on the natural
  numbers. The count is what the create info carries as \<open>minImageCount\<close>.
\<close>

theorem createSwapChain_imageCount_clamped:
  "createSwapChain_imageCount caps =
     (if maxImageCount caps \<noteq> 0 \<and> maxImageCount caps < minImageCount caps + 1
      then maxImageCount caps else minImageCount caps + 1)
   \<and> (maxImageCount caps = 0 \<longrightarrow> createSwapChain_imageCount caps = minImageCount caps + 1)
   \<and> (minImageCount caps = 2 \<and> maxImageCount caps = 0 \<longrightarrow> createSwapChain_imageCount caps = 3)
   \<and> (minImageCount caps = 3 \<and> maxImageCount caps = 3 \<longrightarrow> createSwapChain_imageCount caps = 3)
   \<and> (minImageCount caps \<noteq> uint32_max \<longrightarrow>
        unat (createSwapChain_imageCount caps) =
          (if unat (maxImageCount caps) \<noteq> 0
              \<and> unat (maxImageCount caps) < unat (minImageCount caps) + 1
           then unat (maxImageCount caps) else unat (minImageCount caps) + 1))
   \<and> (\<forall>createInfo. createSwapChain_createInfo app = Inr createInfo \<longrightarrow>
        minImageCount_ci createInfo =
          createSwapChain_imageCount (surfaceCapabilities (physicalDevice app)))"
  using createSwapChain_imageCount_unat [of caps] createSwapChain_createInfo_fields(1) [of app]
  by (simp add: createSwapChain_imageCount_eq)

text \<open>
  The example capabilities (minimum 2, no maximum) give 3, as a word and as a number;
  minimum 3 with maximum 3 gives 3; the example application's create info asks for 3.
\<close>

theorem createSwapChain_imageCount_clamped_witness:
  "createSwapChain_imageCount example_capabilities = 3
   \<and> unat (createSwapChain_imageCount example_capabilities) = 3
   \<and> createSwapChain_imageCount (example_capabilities\<lparr>minImageCount := 3, maxImageCount := 3\<rparr>) = 3
   \<and> map_sum id minImageCount_ci (createSwapChain_createInfo example_app) = Inr 3"
  using createSwapChain_imageCount_clamped [of example_capabilities example_app]
    createSwapChain_imageCount_clamped
      [of "example_capabilities\<lparr>minImageCount := 3, maxImageCount := 3\<rparr>" example_app]
    example_createInfo
  by (simp add: example_capabilities_def uint32_max_def)

subsection \<open>C8: device suitability\<close>

text \<open>
  C8. The claim asks that a device be judged suitable only when, beside non-empty format
  and mode lists and the swap chain extension, its queue indices are complete, that is,
  both the graphics and the present index have a value. The code judges the example
  device without a presenting family suitable: its format and mode lists are not empty,
  it has the extension and a graphics family, and \<^verbatim>\<open>isDeviceSuitable\<close> asks
  \<^verbatim>\<open>isComplete\<close>, which looks at the graphics index alone, while the present index of
  the device has no value.
\<close>

theorem isDeviceSuitable_accepts_missing_presentFamily:
  "isDeviceSuitable example_device_no_present
   \<and> graphicsFamily (findQueueFamilies example_device_no_present) = Some 0
   \<and> presentFamily (findQueueFamilies example_device_no_present) = None
   \<and> surfaceFormats example_device_no_present \<noteq> []
   \<and> surfacePresentModes example_device_no_present \<noteq> []
   \<and> VK_KHR_SWAPCHAIN_EXTENSION_NAME \<in> set (extensionProperties example_device_no_present)"
  using example_no_present_suitable
  by (simp add: example_scan) (simp add: example_defs vk_constants)

subsection \<open>C9: the previous swap chain\<close>

text \<open>
  C9 (as amended). \<^verbatim>\<open>createSwapChain\<close> takes no previous chain: every create info it
  builds has the null handle as \<open>oldSwapChain\<close>, a first-time creation, and the create
  info does not depend on the swap chain the application object already holds.
\<close>

theorem createSwapChain_oldSwapChain_null:
  "(\<forall>createInfo. createSwapChain_createInfo app = Inr createInfo \<longrightarrow>
      oldSwapChain createInfo = VK_NULL_HANDLE)
   \<and> createSwapChain_createInfo (app\<lparr>swapChain := previousChain\<rparr>) = createSwapChain_createInfo app"
  using createSwapChain_createInfo_fields(3) [of app]
  by (simp add: createSwapChain_createInfo_def Let_def split: sum.split)

text \<open>
  The example application: its create info has the null handle, and is the same when
  the application holds no swap chain.
\<close>

theorem createSwapChain_oldSwapChain_null_witness:
  "map_sum id oldSwapChain (createSwapChain_createInfo example_app) = Inr 0
   \<and> createSwapChain_createInfo (example_app\<lparr>swapChain := 0\<rparr>)
      = createSwapChain_createInfo example_app"
  using createSwapChain_oldSwapChain_null [of example_app 0] example_createInfo
  by (simp add: VK_NULL_HANDLE_def)

text \<open>
  The claim as stated fails for an application that holds a swap chain: the example
  application holds the chain with handle 7, and the create info it builds for a
  recreation still names the null handle as the old chain.
\<close>

theorem createSwapChain_ignores_held_chain:
  "swapChain example_app = 7
   \<and> map_sum id oldSwapChain (createSwapChain_createInfo example_app) = Inr 0"
  by (simp add: example_createInfo) (simp add: example_app_def)

subsection \<open>C10: only the width is tested\<close>

text \<open>
  C10. The branch of \<^verbatim>\<open>chooseSwapExtent\<close> is decided by the width of \<open>currentExtent\<close>
  alone. For every capability record whose current width is not the maximum of
  \<^verbatim>\<open>uint32_t\<close>, the current extent is returned as it is, whatever its height, also when
  the height is that maximum. When the current width is the maximum, the result is the
  same for every current height: the height is never compared.
\<close>

theorem chooseSwapExtent_tests_width_only:
  "(w \<noteq> uint32_max \<longrightarrow>
      chooseSwapExtent (caps\<lparr>currentExtent := \<lparr>width = w, height = h\<rparr>\<rparr>) framebufferSize
        = Inr \<lparr>width = w, height = h\<rparr>)
   \<and> (w \<noteq> uint32_max \<longrightarrow>
      chooseSwapExtent (caps\<lparr>currentExtent := \<lparr>width = w, height = uint32_max\<rparr>\<rparr>) framebufferSize
        = Inr \<lparr>width = w, height = uint32_max\<rparr>)
   \<and> chooseSwapExtent (caps\<lparr>currentExtent := \<lparr>width = uint32_max, height = h\<rparr>\<rparr>) framebufferSize
       = chooseSwapExtent (caps\<lparr>currentExtent := \<lparr>width = uint32_max, height = h'\<rparr>\<rparr>) framebufferSize"
  by (simp add: chooseSwapExtent_def Let_def split: sum.split)

text \<open>
  A current extent of 800 by the maximum is returned as it is; a current extent of the
  maximum by 600 is treated as the marker, and the framebuffer size is used.
\<close>

theorem chooseSwapExtent_tests_width_only_witness:
  "chooseSwapExtent (example_capabilities\<lparr>currentExtent := \<lparr>width = 800, height = uint32_max\<rparr>\<rparr>) (1024, 768)
     = Inr \<lparr>width = 800, height = uint32_max\<rparr>
   \<and> chooseSwapExtent (example_capabilities\<lparr>currentExtent := \<lparr>width = uint32_max, height = 600\<rparr>\<rparr>) (1024, 768)
     = Inr \<lparr>width = 1024, height = 768\<rparr>"
proof -
  have "chooseSwapExtent (example_capabilities\<lparr>currentExtent := \<lparr>width = uint32_max, height = uint32_max\<rparr>\<rparr>) (1024, 768)
     = Inr \<lparr>width = 1024, height = 768\<rparr>"
    by (simp add: chooseSwapExtent_def std_clamp_def example_capabilities_def uint32_max_def)
  with chooseSwapExtent_tests_width_only [where w = 800 and h = 600 and h' = uint32_max
      and caps = example_capabilities and framebufferSize = "(1024, 768)"]
  show ?thesis by (simp add: uint32_max_def)
qed

end
